theory Spec2Isabelle
  imports Complex_Main
begin

section \<open>Data model\<close>

text \<open>
  The back-testing engine of the repository (\<^verbatim>\<open>backtester.py\<close>, \<^verbatim>\<open>optimizer.py\<close>,
  \<^verbatim>\<open>config.py\<close>) works on a pandas DataFrame whose rows are hourly bars. A row is
  modelled as a record: the timestamp of the index (in seconds), the \<^verbatim>\<open>close\<close> column and
  the four indicator columns that \<^verbatim>\<open>_generate_signals\<close> selects by name from the
  parameters (\<^verbatim>\<open>EMA_n\<close>, \<^verbatim>\<open>ADX_n\<close>, \<^verbatim>\<open>MACD_f_s_g\<close>, \<^verbatim>\<open>MACDs_f_s_g\<close>).

  Python floats are modelled as exact reals: rounding and overflow are idealised away.
  The rows that reach the simulator come from \<^verbatim>\<open>add_indicators\<close>, which drops every row
  holding a NaN, so the columns hold numbers. The simulator divides by the close price
  only; a close price of zero (where numpy yields \<^verbatim>\<open>inf\<close> or \<^verbatim>\<open>nan\<close>) is outside the
  model, and the theorems that depend on the quotient assume a non-zero price.
\<close>

record bar =
  timestamp :: int
  close :: real
  ema :: real
  adx :: real
  macd_line :: real
  macd_sig :: real

record strategy_params =
  ema_len :: int
  macd_fast :: int
  macd_slow :: int
  macd_signal :: int
  adx_len :: int
  adx_threshold :: real
  stop_loss :: real
  take_profit :: real
  n_shares :: real

text \<open>The constants of \<^verbatim>\<open>config.py\<close>.\<close>

definition INITIAL_CASH :: real where
  "INITIAL_CASH = 1000000"

definition COMMISSION :: real where
  "COMMISSION = 125 / 100000"

text \<open>The attributes of a \<^verbatim>\<open>Backtester\<close> object, and its constructor.\<close>

record backtester =
  data :: "bar list"
  params :: strategy_params
  initial_cash :: real
  commission :: real

definition Backtester :: "bar list \<Rightarrow> strategy_params \<Rightarrow> backtester" where
  "Backtester d p =
     \<lparr>data = d, params = p, initial_cash = INITIAL_CASH, commission = COMMISSION\<rparr>"

section \<open>Signal generation\<close>

text \<open>
  \<^verbatim>\<open>Series.shift(1)\<close> moves every value one row down and puts NaN in row 0; a comparison
  with NaN is false. The shifted column is a list of optional values, \<open>None\<close> for NaN.
\<close>

definition shift1 :: "real list \<Rightarrow> real option list" where
  "shift1 xs = (if xs = [] then [] else None # map Some (butlast xs))"

fun nan_less :: "real option \<Rightarrow> real option \<Rightarrow> bool" where
  "nan_less (Some x) (Some y) = (x < y)"
| "nan_less _ _ = False"

definition astype_int :: "bool \<Rightarrow> int" where
  "astype_int b = (if b then 1 else 0)"

definition votes :: "bool list \<Rightarrow> bool list \<Rightarrow> bool list \<Rightarrow> bool list" where
  "votes xs ys zs =
     map (\<lambda>(x, y, z). astype_int x + astype_int y + astype_int z \<ge> 2) (zip xs (zip ys zs))"

definition cond_ema_up :: "backtester \<Rightarrow> bool list" where
  "cond_ema_up bt = map (\<lambda>b. close b > ema b) (data bt)"

definition cond_ema_down :: "backtester \<Rightarrow> bool list" where
  "cond_ema_down bt = map (\<lambda>b. close b < ema b) (data bt)"

definition cond_adx_strong :: "backtester \<Rightarrow> bool list" where
  "cond_adx_strong bt = map (\<lambda>b. adx b > adx_threshold (params bt)) (data bt)"

definition cond_macd_cross_up :: "backtester \<Rightarrow> bool list" where
  "cond_macd_cross_up bt =
     map2 (\<and>)
       (map2 nan_less (shift1 (map macd_line (data bt))) (shift1 (map macd_sig (data bt))))
       (map (\<lambda>b. macd_line b > macd_sig b) (data bt))"

definition cond_macd_cross_down :: "backtester \<Rightarrow> bool list" where
  "cond_macd_cross_down bt =
     map2 (\<and>)
       (map2 nan_less (shift1 (map macd_sig (data bt))) (shift1 (map macd_line (data bt))))
       (map (\<lambda>b. macd_line b < macd_sig b) (data bt))"

text \<open>The two columns \<^verbatim>\<open>buy_signal\<close> and \<^verbatim>\<open>sell_signal\<close> that \<^verbatim>\<open>_generate_signals\<close> adds.\<close>

definition buy_signal :: "backtester \<Rightarrow> bool list" where
  "buy_signal bt = votes (cond_ema_up bt) (cond_adx_strong bt) (cond_macd_cross_up bt)"

definition sell_signal :: "backtester \<Rightarrow> bool list" where
  "sell_signal bt = votes (cond_ema_down bt) (cond_adx_strong bt) (cond_macd_cross_down bt)"

section \<open>The simulation loop\<close>

text \<open>The local variables \<^verbatim>\<open>cash\<close>, \<^verbatim>\<open>position\<close> and \<^verbatim>\<open>entry_price\<close> of \<^verbatim>\<open>Backtester.run\<close>.\<close>

record sim_state =
  cash :: real
  position :: real
  entry_price :: real

text \<open>
  The body of the loop of \<^verbatim>\<open>run\<close> has three numbered parts. Part 1 closes an open
  position on stop-loss or take-profit, at the close price of the current bar.
\<close>

definition close_logic :: "backtester \<Rightarrow> real \<Rightarrow> sim_state \<Rightarrow> sim_state" where
  "close_logic bt current_price st =
     (let stop_loss_pct = stop_loss (params bt);
          take_profit_pct = take_profit (params bt)
      in if position st > 0 then
           (let stop_loss_price = entry_price st * (1 - stop_loss_pct);
                take_profit_price = entry_price st * (1 + take_profit_pct)
            in if current_price \<le> stop_loss_price \<or> current_price \<ge> take_profit_price
               then st\<lparr>cash := cash st + position st * current_price * (1 - commission bt),
                       position := 0\<rparr>
               else st)
         else if position st < 0 then
           (let stop_loss_price = entry_price st * (1 + stop_loss_pct);
                take_profit_price = entry_price st * (1 - take_profit_pct)
            in if current_price \<ge> stop_loss_price \<or> current_price \<le> take_profit_price
               then st\<lparr>cash := cash st - \<bar>position st\<bar> * current_price * (1 + commission bt),
                       position := 0\<rparr>
               else st)
         else st)"

text \<open>Part 2 opens a position when none is open: the buy signal is read first.\<close>

definition open_logic :: "backtester \<Rightarrow> real \<Rightarrow> bool \<Rightarrow> bool \<Rightarrow> sim_state \<Rightarrow> sim_state" where
  "open_logic bt current_price buy sell st =
     (if position st = 0 then
        (if buy then
           (let investment_amount = cash st * n_shares (params bt);
                cost = investment_amount * (1 + commission bt)
            in if cash st > cost
               then st\<lparr>cash := cash st - cost,
                       position := investment_amount / current_price,
                       entry_price := current_price\<rparr>
               else st)
         else if sell then
           (let investment_amount = cash st * n_shares (params bt);
                proceeds = investment_amount * (1 - commission bt)
            in st\<lparr>cash := cash st + proceeds,
                  position := - (investment_amount / current_price),
                  entry_price := current_price\<rparr>)
         else st)
      else st)"

text \<open>Part 3 values the portfolio at the close price of the current bar.\<close>

definition portfolio_value :: "real \<Rightarrow> sim_state \<Rightarrow> real" where
  "portfolio_value current_price st =
     (if position st > 0 then cash st + position st * current_price
      else if position st < 0 then cash st - \<bar>position st\<bar> * current_price
      else cash st)"

text \<open>
  One pass through the body: the state after the bar and the value appended for it.
\<close>

definition bar_step :: "backtester \<Rightarrow> real \<Rightarrow> bool \<Rightarrow> bool \<Rightarrow> sim_state \<Rightarrow> sim_state \<times> real" where
  "bar_step bt current_price buy sell st =
     (let st1 = close_logic bt current_price st;
          st2 = open_logic bt current_price buy sell st1
      in (st2, portfolio_value current_price st2))"

text \<open>
  The loop \<^verbatim>\<open>for i in range(1, len(self.data))\<close>, as a fold over the indices it visits.
  The accumulator is the state together with the list \<^verbatim>\<open>portfolio_values\<close>.
\<close>

definition loop_body ::
  "backtester \<Rightarrow> sim_state \<times> real list \<Rightarrow> nat \<Rightarrow> sim_state \<times> real list" where
  "loop_body bt acc i =
     (let current_price = close (data bt ! i);
          r = bar_step bt current_price (buy_signal bt ! i) (sell_signal bt ! i) (fst acc)
      in (fst r, snd acc @ [snd r]))"

definition initial_state :: "backtester \<Rightarrow> sim_state" where
  "initial_state bt = \<lparr>cash = initial_cash bt, position = 0, entry_price = 0\<rparr>"

definition run_loop :: "backtester \<Rightarrow> nat list \<Rightarrow> sim_state \<times> real list" where
  "run_loop bt idxs = foldl (loop_body bt) (initial_state bt, []) idxs"

text \<open>The state and the values after the bars \<open>1, \<dots>, i\<close> have been processed.\<close>

definition state_after :: "backtester \<Rightarrow> nat \<Rightarrow> sim_state \<times> real list" where
  "state_after bt i = run_loop bt [1..<Suc i]"

definition portfolio_values :: "backtester \<Rightarrow> real list" where
  "portfolio_values bt = snd (run_loop bt [1..<length (data bt)])"

text \<open>
  \<^verbatim>\<open>run(return_value_series=True)\<close> returns the values indexed by the timestamps of the
  bars after the first; \<^verbatim>\<open>run()\<close> returns the last value, or the initial capital when
  there is none.
\<close>

definition run_series :: "backtester \<Rightarrow> (int \<times> real) list" where
  "run_series bt = zip (map timestamp (tl (data bt))) (portfolio_values bt)"

definition run_final :: "backtester \<Rightarrow> real" where
  "run_final bt =
     (if portfolio_values bt = [] then initial_cash bt else last (portfolio_values bt))"

section \<open>Floating-point results of the objective\<close>

text \<open>
  The objective metric divides by values of the series and raises a ratio to a real power.
  On numpy's 64-bit floats a division by zero gives \<^verbatim>\<open>inf\<close> or \<^verbatim>\<open>nan\<close> and a negative
  base with a fractional exponent gives \<^verbatim>\<open>nan\<close>; none of them raises. The metric is
  therefore computed on reals extended by the three special values. Finite values are
  exact, and a zero is taken as positive.
\<close>

datatype fval = Fin real | PInf | NInf | NaN

fun fneg :: "fval \<Rightarrow> fval" where
  "fneg (Fin x) = Fin (- x)"
| "fneg PInf = NInf"
| "fneg NInf = PInf"
| "fneg NaN = NaN"

fun fadd :: "fval \<Rightarrow> fval \<Rightarrow> fval" where
  "fadd (Fin x) (Fin y) = Fin (x + y)"
| "fadd NaN _ = NaN"
| "fadd _ NaN = NaN"
| "fadd PInf NInf = NaN"
| "fadd NInf PInf = NaN"
| "fadd PInf _ = PInf"
| "fadd _ PInf = PInf"
| "fadd NInf _ = NInf"
| "fadd _ NInf = NInf"

definition fsub :: "fval \<Rightarrow> fval \<Rightarrow> fval" where
  "fsub a b = fadd a (fneg b)"

fun fdiv :: "fval \<Rightarrow> fval \<Rightarrow> fval" where
  "fdiv (Fin x) (Fin y) =
     (if y \<noteq> 0 then Fin (x / y)
      else if x > 0 then PInf else if x < 0 then NInf else NaN)"
| "fdiv NaN _ = NaN"
| "fdiv _ NaN = NaN"
| "fdiv (Fin x) _ = Fin 0"
| "fdiv PInf (Fin y) = (if y \<ge> 0 then PInf else NInf)"
| "fdiv NInf (Fin y) = (if y \<ge> 0 then NInf else PInf)"
| "fdiv _ _ = NaN"

definition is_integer :: "real \<Rightarrow> bool" where
  "is_integer e = (of_int \<lfloor>e\<rfloor> = e)"

text \<open>
  \<open>fpow b e\<close> is \<^verbatim>\<open>b ** e\<close> for a positive exponent, the only case the metric reaches
  (the exponent is \<open>8760 / n_hours\<close> with \<open>n_hours \<ge> 1\<close>).
\<close>

fun fpow :: "fval \<Rightarrow> real \<Rightarrow> fval" where
  "fpow (Fin b) e =
     (if b \<ge> 0 then Fin (b powr e)
      else if is_integer e then Fin (b ^ nat \<lfloor>e\<rfloor>)
      else NaN)"
| "fpow PInf e = PInf"
| "fpow NInf e = (if is_integer e \<and> odd \<lfloor>e\<rfloor> then NInf else PInf)"
| "fpow NaN e = NaN"

fun fabs :: "fval \<Rightarrow> fval" where
  "fabs (Fin x) = Fin \<bar>x\<bar>"
| "fabs PInf = PInf"
| "fabs NInf = PInf"
| "fabs NaN = NaN"

text \<open>\<open>fless a b\<close> is \<^verbatim>\<open>a < b\<close>: false when either side is NaN.\<close>

fun fless :: "fval \<Rightarrow> fval \<Rightarrow> bool" where
  "fless (Fin x) (Fin y) = (x < y)"
| "fless NaN _ = False"
| "fless _ NaN = False"
| "fless NInf NInf = False"
| "fless NInf _ = True"
| "fless PInf _ = False"
| "fless _ PInf = True"
| "fless _ NInf = False"

text \<open>\<^verbatim>\<open>Series.min()\<close> skips NaN entries and is NaN when nothing is left.\<close>

definition fmin_skipna :: "fval list \<Rightarrow> fval" where
  "fmin_skipna xs =
     (case filter (\<lambda>x. x \<noteq> NaN) xs of
        [] \<Rightarrow> NaN
      | y # ys \<Rightarrow> foldl (\<lambda>m x. if fless x m then x else m) y ys)"

text \<open>\<^verbatim>\<open>Series.cummax()\<close> on a series of numbers: the running maximum.\<close>

fun cummax_from :: "real \<Rightarrow> real list \<Rightarrow> real list" where
  "cummax_from m [] = []"
| "cummax_from m (x # xs) = max m x # cummax_from (max m x) xs"

definition cummax :: "real list \<Rightarrow> real list" where
  "cummax xs = (case xs of [] \<Rightarrow> [] | x # ys \<Rightarrow> x # cummax_from x ys)"

text \<open>\<^verbatim>\<open>sum(objective_metrics)\<close>: Python's sum starts from 0.\<close>

definition fsum :: "fval list \<Rightarrow> fval" where
  "fsum xs = foldl fadd (Fin 0) xs"

section \<open>The objective metric and the walk-forward objective\<close>

text \<open>
  \<^verbatim>\<open>Optimizer._calculate_objective_metric\<close>. A series is the list of its
  (timestamp, value) pairs; the values are numbers.
\<close>

definition calculate_objective_metric :: "(int \<times> real) list \<Rightarrow> fval" where
  "calculate_objective_metric series =
     (if series = [] \<or> length series < 2 then Fin 0
      else
        (let total_return =
               fsub (fdiv (Fin (snd (last series))) (Fin (snd (hd series)))) (Fin 1);
             n_hours = real_of_int (fst (last series) - fst (hd series)) / 3600
         in if n_hours < 1 then Fin 0
            else
              (let annualized_return =
                     fsub (fpow (fadd (Fin 1) total_return) (8760 / n_hours)) (Fin 1);
                   cumulative_max = cummax (map snd series);
                   drawdown =
                     map2 (\<lambda>v m. fdiv (Fin (v - m)) (Fin m)) (map snd series) cumulative_max;
                   max_drawdown = fabs (fmin_skipna drawdown)
               in if fless max_drawdown (Fin (1 / 100)) then Fin 0
                  else fdiv annualized_return max_drawdown)))"

text \<open>
  \<^verbatim>\<open>Optimizer.objective\<close>. The parameters that Optuna suggests are the record \<open>p\<close>. The
  indicator computation \<^verbatim>\<open>add_indicators\<close> calls the library pandas-ta and is a parameter
  \<open>ind\<close> of the model: it maps a block of raw rows to the rows with their indicator
  columns, the warm-up rows dropped, or to \<open>None\<close> when the library raises. An exception
  leaves the loop, and the objective, at once. \<open>block_metric\<close> is the rest of the loop
  body: the simulation of the block and its score.
\<close>

datatype error = IndicatorError

definition block_metric :: "strategy_params \<Rightarrow> bar list \<Rightarrow> fval" where
  "block_metric p chunk_with_indicators =
     (let portfolio_values = run_series (Backtester chunk_with_indicators p)
      in if portfolio_values \<noteq> [] then calculate_objective_metric portfolio_values
         else Fin (- 1))"

fun walk_forward ::
  "(strategy_params \<Rightarrow> 'r list \<Rightarrow> bar list option) \<Rightarrow> 'r list \<Rightarrow> strategy_params \<Rightarrow> nat \<Rightarrow>
   nat list \<Rightarrow> fval list \<Rightarrow> error + fval list" where
  "walk_forward ind d p chunk_size [] objective_metrics = Inr objective_metrics"
| "walk_forward ind d p chunk_size (i # is) objective_metrics =
     (let start_idx = i * chunk_size;
          end_idx = (i + 1) * chunk_size;
          chunk = take (end_idx - start_idx) (drop start_idx d)
      in case ind p chunk of
           None \<Rightarrow> Inl IndicatorError
         | Some chunk_with_indicators \<Rightarrow>
             walk_forward ind d p chunk_size is
               (objective_metrics @ [block_metric p chunk_with_indicators]))"

definition objective ::
  "(strategy_params \<Rightarrow> 'r list \<Rightarrow> bar list option) \<Rightarrow> 'r list \<Rightarrow> strategy_params \<Rightarrow>
   error + fval" where
  "objective ind d p =
     (if macd_fast p \<ge> macd_slow p then Inr (Fin (- 1))
      else
        (let n_splits = 10;
             len_data = length d;
             chunk_size = len_data div n_splits
         in if chunk_size < 30 then Inr (Fin (- 1))
            else
              (case walk_forward ind d p chunk_size [0..<n_splits] [] of
                 Inl e \<Rightarrow> Inl e
               | Inr objective_metrics \<Rightarrow>
                   (if objective_metrics = [] then Inr (Fin (- 1))
                    else Inr (fdiv (fsum objective_metrics)
                                   (Fin (real (length objective_metrics))))))))"

text \<open>The search space from which \<^verbatim>\<open>objective\<close> lets Optuna suggest the parameters.\<close>

definition in_search_space :: "strategy_params \<Rightarrow> bool" where
  "in_search_space p =
     (50 \<le> ema_len p \<and> ema_len p \<le> 200
      \<and> 7 \<le> macd_fast p \<and> macd_fast p \<le> 21
      \<and> 22 \<le> macd_slow p \<and> macd_slow p \<le> 50
      \<and> 7 \<le> macd_signal p \<and> macd_signal p \<le> 14
      \<and> 10 \<le> adx_len p \<and> adx_len p \<le> 21
      \<and> 22 \<le> adx_threshold p \<and> adx_threshold p \<le> 35 \<and> is_integer (adx_threshold p)
      \<and> 2 / 100 \<le> stop_loss p \<and> stop_loss p \<le> 8 / 100 \<and> is_integer (100 * stop_loss p)
      \<and> 4 / 100 \<le> take_profit p \<and> take_profit p \<le> 15 / 100
      \<and> is_integer (100 * take_profit p)
      \<and> 1 / 10 \<le> n_shares p \<and> n_shares p \<le> 5 / 10 \<and> is_integer (20 * n_shares p))"

section \<open>The state machine of the specification\<close>

text \<open>
  The specification describes the simulator as a state machine over \<open>Flat\<close>,
  \<open>Long(entry_price, size)\<close> and \<open>Short(entry_price, size)\<close> with a cash balance, and
  a bar as three steps: exit check, entry check, mark-to-market. The definitions below
  follow its words. The code keeps a signed \<^verbatim>\<open>position\<close> instead (positive for long,
  negative for short); \<open>holding_of\<close> reads a signed size that way and \<open>view\<close> maps a state
  of the code to the state of the machine.
\<close>

datatype holding = Flat | Long real real | Short real real

definition holding_of :: "real \<Rightarrow> real \<Rightarrow> holding" where
  "holding_of entry sz =
     (if sz > 0 then Long entry sz else if sz < 0 then Short entry sz else Flat)"

definition view :: "sim_state \<Rightarrow> real \<times> holding" where
  "view st = (cash st, holding_of (entry_price st) (position st))"

fun exit_check :: "backtester \<Rightarrow> real \<Rightarrow> real \<times> holding \<Rightarrow> real \<times> holding" where
  "exit_check bt price (c, Long entry sz) =
     (let stop = entry * (1 - stop_loss (params bt));
          target = entry * (1 + take_profit (params bt))
      in if price \<le> stop \<or> price \<ge> target
         then (c + sz * price * (1 - commission bt), Flat)
         else (c, Long entry sz))"
| "exit_check bt price (c, Short entry sz) =
     (let stop = entry * (1 + stop_loss (params bt));
          target = entry * (1 - take_profit (params bt))
      in if price \<ge> stop \<or> price \<le> target
         then (c - \<bar>sz\<bar> * price * (1 + commission bt), Flat)
         else (c, Short entry sz))"
| "exit_check bt price (c, Flat) = (c, Flat)"

fun entry_check :: "backtester \<Rightarrow> real \<Rightarrow> bool \<Rightarrow> bool \<Rightarrow> real \<times> holding \<Rightarrow> real \<times> holding" where
  "entry_check bt price buy sell (c, Flat) =
     (let investment = c * n_shares (params bt)
      in if buy then
           (let outlay = investment * (1 + commission bt)
            in if c > outlay then (c - outlay, holding_of price (investment / price))
               else (c, Flat))
         else if sell then
           (c + investment * (1 - commission bt), holding_of price (- investment / price))
         else (c, Flat))"
| "entry_check bt price buy sell (c, h) = (c, h)"

fun mark_to_market :: "real \<Rightarrow> real \<times> holding \<Rightarrow> real" where
  "mark_to_market price (c, Long entry sz) = c + sz * price"
| "mark_to_market price (c, Short entry sz) = c - \<bar>sz\<bar> * price"
| "mark_to_market price (c, Flat) = c"

section \<open>Concrete inputs\<close>

text \<open>
  A parameter set inside the search space, and rows whose MACD columns are zero, so that
  no cross occurs: the buy signal of such a row is \<open>close > ema \<and> adx > threshold\<close> and
  its sell signal \<open>close < ema \<and> adx > threshold\<close>. Timestamps are one hour apart.
\<close>

definition p_example :: strategy_params where
  "p_example =
     \<lparr>ema_len = 50, macd_fast = 12, macd_slow = 26, macd_signal = 9, adx_len = 14,
      adx_threshold = 25, stop_loss = 5 / 100, take_profit = 1 / 10, n_shares = 1 / 2\<rparr>"

definition mk_bar :: "int \<Rightarrow> real \<Rightarrow> real \<Rightarrow> real \<Rightarrow> bar" where
  "mk_bar k c e a =
     \<lparr>timestamp = 3600 * k, close = c, ema = e, adx = a, macd_line = 0, macd_sig = 0\<rparr>"

text \<open>A row without a signal: the close is on its EMA and the ADX is zero.\<close>

definition quiet_bar :: "int \<Rightarrow> real \<Rightarrow> bar" where
  "quiet_bar k c = mk_bar k c c 0"

text \<open>
  The scenario of the specification: ten bars, close 100 up to bar 4 and 130 from bar 5
  on, a buy signal at bar 1 only, take-profit 0.2.
\<close>

definition scenario_bt :: backtester where
  "scenario_bt =
     Backtester
       [mk_bar 0 100 90 0, mk_bar 1 100 90 30, mk_bar 2 100 90 0, mk_bar 3 100 90 0,
        mk_bar 4 100 90 0, mk_bar 5 130 90 0, mk_bar 6 130 90 0, mk_bar 7 130 90 0,
        mk_bar 8 130 90 0, mk_bar 9 130 90 0]
       (p_example\<lparr>take_profit := 2 / 10\<rparr>)"

text \<open>
  A short opened at bar 1 at price 100, the close at 400 on bar 2, and a sell signal on
  bar 3.
\<close>

definition spike_bt :: backtester where
  "spike_bt =
     Backtester
       [quiet_bar 0 100, mk_bar 1 100 110 40, quiet_bar 2 400, mk_bar 3 400 500 40]
       p_example"

text \<open>The scenario with its bars after bar 5 removed and another bar put in their place.\<close>

definition scenario_cut :: backtester where
  "scenario_cut = scenario_bt\<lparr>data := take 6 (data scenario_bt) @ [mk_bar 6 50 90 30]\<rparr>"

text \<open>A single bar above its EMA with a strong ADX.\<close>

definition one_bar_bt :: backtester where
  "one_bar_bt = Backtester [mk_bar 0 101 100 30] p_example"

text \<open>Objects without bars: one with a zero stop-loss distance, one that invests all cash.\<close>

definition no_stop_bt :: backtester where
  "no_stop_bt = Backtester [] (p_example\<lparr>stop_loss := 0\<rparr>)"


text \<open>
  A stand-in for \<^verbatim>\<open>add_indicators\<close> on rows that carry their indicator columns already:
  it drops the rows of the EMA warm-up, the first \<open>ema_len - 1\<close> of the block, as
  \<^verbatim>\<open>dropna\<close> does.
\<close>

definition drop_warmup :: "strategy_params \<Rightarrow> bar list \<Rightarrow> bar list option" where
  "drop_warmup p chunk = Some (drop (nat (ema_len p - 1)) chunk)"


text \<open>
  Six hundred hourly rows: 100 up to row 50, which carries a sell signal, and 400 from
  row 51 on. No other row has a signal.
\<close>

definition spike_data :: "bar list" where
  "spike_data =
     map (\<lambda>k. if k = 50 then mk_bar 50 100 110 40
               else quiet_bar (int k) (if k < 50 then 100 else 400)) [0..<600]"

text \<open>The rows of the first block of \<open>spike_data\<close> that are left after the warm-up.\<close>

definition spike_block :: "bar list" where
  "spike_block =
     [quiet_bar 49 100, mk_bar 50 100 110 40, quiet_bar 51 400, quiet_bar 52 400,
      quiet_bar 53 400, quiet_bar 54 400, quiet_bar 55 400, quiet_bar 56 400,
      quiet_bar 57 400, quiet_bar 58 400, quiet_bar 59 400]"

definition spike_block_bt :: backtester where
  "spike_block_bt = Backtester spike_block p_example"

section \<open>The metric of the specification\<close>

text \<open>
  The risk-adjusted return as the specification words it, on reals: the running peak of
  a value series, the drawdown of each point against it, the maximum drawdown as the
  absolute value of the smallest drawdown, and the annualized return over the maximum
  drawdown behind the three guards.
\<close>

definition running_peak :: "real list \<Rightarrow> nat \<Rightarrow> real" where
  "running_peak vs i = Max (set (take (Suc i) vs))"

definition spec_drawdown :: "real list \<Rightarrow> nat \<Rightarrow> real" where
  "spec_drawdown vs i = (vs ! i - running_peak vs i) / running_peak vs i"

definition spec_max_drawdown :: "real list \<Rightarrow> real" where
  "spec_max_drawdown vs = \<bar>Min (set (map (spec_drawdown vs) [0..<length vs]))\<bar>"

definition spec_metric :: "(int \<times> real) list \<Rightarrow> real" where
  "spec_metric series =
     (if length series < 2 then 0
      else
        (let elapsed_hours = real_of_int (fst (last series) - fst (hd series)) / 3600;
             total_return = snd (last series) / snd (hd series) - 1;
             annualized_return = (1 + total_return) powr (8760 / elapsed_hours) - 1;
             max_drawdown = spec_max_drawdown (map snd series)
         in if elapsed_hours < 1 then 0
            else if max_drawdown < 1 / 100 then 0
            else annualized_return / max_drawdown))"

section \<open>Facts about the loop\<close>

lemma state_after_0: "state_after bt 0 = (initial_state bt, [])"
  by (simp add: state_after_def run_loop_def)

lemma state_after_Suc: "state_after bt (Suc i) = loop_body bt (state_after bt i) (Suc i)"
  by (simp add: state_after_def run_loop_def)

lemma state_after_next:
  assumes "state_after bt i = (st, pvs)"
  shows "state_after bt (Suc i) =
     (fst (bar_step bt (close (data bt ! Suc i)) (buy_signal bt ! Suc i) (sell_signal bt ! Suc i) st),
      pvs @ [snd (bar_step bt (close (data bt ! Suc i)) (buy_signal bt ! Suc i)
                     (sell_signal bt ! Suc i) st)])"
  using assms by (simp add: state_after_Suc loop_body_def Let_def)

lemma length_values: "length (snd (state_after bt i)) = i"
  by (induction i) (simp_all add: state_after_0 state_after_Suc loop_body_def Let_def)

lemma portfolio_values_state_after:
  "portfolio_values bt = snd (state_after bt (length (data bt) - 1))"
  by (cases "data bt = []") (simp_all add: portfolio_values_def state_after_def)

lemma values_prefix: "i \<le> j \<Longrightarrow> snd (state_after bt i) = take i (snd (state_after bt j))"
proof (induction j)
  case 0
  then show ?case by (simp add: state_after_0)
next
  case (Suc j)
  show ?case
  proof (cases "i = Suc j")
    case True
    then show ?thesis using length_values [of bt "Suc j"] by simp
  next
    case False
    with Suc have "snd (state_after bt i) = take i (snd (state_after bt j))" by simp
    moreover have "i \<le> length (snd (state_after bt j))"
      using False Suc.prems by (simp add: length_values)
    ultimately show ?thesis by (simp add: state_after_Suc loop_body_def Let_def)
  qed
qed

lemma values_upto:
  assumes "i < length (data bt)"
  shows "take i (portfolio_values bt) = snd (state_after bt i)"
  using assms values_prefix [of i "length (data bt) - 1" bt]
  by (simp add: portfolio_values_state_after)

section \<open>Facts about the signals\<close>

lemma length_shift1: "length (shift1 xs) = length xs"
  by (simp add: shift1_def)

lemma shift1_nth:
  "i < length xs \<Longrightarrow> shift1 xs ! i = (if i = 0 then None else Some (xs ! (i - 1)))"
  by (cases i) (auto simp: shift1_def nth_butlast)

lemma cross_up_nth:
  "i < length (data bt) \<Longrightarrow> cond_macd_cross_up bt ! i =
     (0 < i \<and> macd_line (data bt ! (i - 1)) < macd_sig (data bt ! (i - 1))
      \<and> macd_line (data bt ! i) > macd_sig (data bt ! i))"
  by (simp add: cond_macd_cross_up_def length_shift1 shift1_nth)

lemma cross_down_nth:
  "i < length (data bt) \<Longrightarrow> cond_macd_cross_down bt ! i =
     (0 < i \<and> macd_line (data bt ! (i - 1)) > macd_sig (data bt ! (i - 1))
      \<and> macd_line (data bt ! i) < macd_sig (data bt ! i))"
  by (simp add: cond_macd_cross_down_def length_shift1 shift1_nth)

lemma length_cross_up: "length (cond_macd_cross_up bt) = length (data bt)"
  by (simp add: cond_macd_cross_up_def length_shift1)

lemma length_cross_down: "length (cond_macd_cross_down bt) = length (data bt)"
  by (simp add: cond_macd_cross_down_def length_shift1)

text \<open>The signals of bar \<open>i\<close> read the rows \<open>i - 1\<close> and \<open>i\<close> only.\<close>

lemma buy_signal_nth:
  "i < length (data bt) \<Longrightarrow> buy_signal bt ! i =
     (astype_int (close (data bt ! i) > ema (data bt ! i))
      + astype_int (adx (data bt ! i) > adx_threshold (params bt))
      + astype_int (0 < i \<and> macd_line (data bt ! (i - 1)) < macd_sig (data bt ! (i - 1))
          \<and> macd_line (data bt ! i) > macd_sig (data bt ! i)) \<ge> 2)"
  by (simp add: buy_signal_def votes_def length_cross_up cross_up_nth cond_ema_up_def
      cond_adx_strong_def)

lemma sell_signal_nth:
  "i < length (data bt) \<Longrightarrow> sell_signal bt ! i =
     (astype_int (close (data bt ! i) < ema (data bt ! i))
      + astype_int (adx (data bt ! i) > adx_threshold (params bt))
      + astype_int (0 < i \<and> macd_line (data bt ! (i - 1)) > macd_sig (data bt ! (i - 1))
          \<and> macd_line (data bt ! i) < macd_sig (data bt ! i)) \<ge> 2)"
  by (simp add: sell_signal_def votes_def length_cross_down cross_down_nth cond_ema_down_def
      cond_adx_strong_def)

lemma take_nth_eq:
  "take (Suc i) xs = take (Suc i) ys \<Longrightarrow> j \<le> i \<Longrightarrow> xs ! j = ys ! j"
  by (metis le_imp_less_Suc nth_take)

lemma signals_causal:
  assumes "take (Suc i) (data bt) = take (Suc i) (data bt')"
    and "i < length (data bt)" and "i < length (data bt')"
    and "params bt' = params bt" and "j \<le> i"
  shows "buy_signal bt ! j = buy_signal bt' ! j \<and> sell_signal bt ! j = sell_signal bt' ! j"
proof -
  have a: "data bt ! j = data bt' ! j"
    using assms take_nth_eq by blast
  have b: "data bt ! (j - 1) = data bt' ! (j - 1)"
    using assms take_nth_eq [of i "data bt" "data bt'" "j - 1"] by simp
  have "j < length (data bt)" "j < length (data bt')"
    using assms by simp_all
  then show ?thesis
    using a b assms(4) by (simp add: buy_signal_nth sell_signal_nth)
qed

lemma bar_step_cong:
  assumes "params bt' = params bt" and "commission bt' = commission bt"
  shows "bar_step bt' = bar_step bt"
proof -
  have "close_logic bt' = close_logic bt" "open_logic bt' = open_logic bt"
    using assms by (intro ext, simp add: close_logic_def open_logic_def Let_def)+
  then show ?thesis
    by (intro ext) (simp add: bar_step_def)
qed

lemma state_causal:
  assumes "take (Suc i) (data bt) = take (Suc i) (data bt')"
    and "i < length (data bt)" and "i < length (data bt')"
    and "params bt' = params bt" and "initial_cash bt' = initial_cash bt"
    and "commission bt' = commission bt" and "j \<le> i"
  shows "state_after bt j = state_after bt' j"
  using assms(7)
proof (induction j)
  case 0
  then show ?case
    using assms(5) by (simp add: state_after_0 initial_state_def)
next
  case (Suc j)
  then have ih: "state_after bt j = state_after bt' j"
    by simp
  have s: "buy_signal bt ! Suc j = buy_signal bt' ! Suc j
      \<and> sell_signal bt ! Suc j = sell_signal bt' ! Suc j"
    using signals_causal [OF assms(1-4) Suc.prems] .
  have d: "data bt ! Suc j = data bt' ! Suc j"
    using assms(1) Suc.prems take_nth_eq by blast
  show ?case
    using ih s d bar_step_cong [OF assms(4,6)] by (simp add: state_after_Suc loop_body_def)
qed

section \<open>Facts about one bar\<close>

lemma view_step:
  "view (fst (bar_step bt price buy sell st)) =
     entry_check bt price buy sell (exit_check bt price (view st))"
  by (simp add: bar_step_def close_logic_def open_logic_def view_def holding_of_def Let_def)

lemma value_step:
  "snd (bar_step bt price buy sell st) =
     mark_to_market price (view (fst (bar_step bt price buy sell st)))"
  by (simp add: bar_step_def portfolio_value_def view_def holding_of_def Let_def)


section \<open>The scenario, bar by bar\<close>

lemma close_mk_bar: "close (mk_bar k c e a) = c"
  by (simp add: mk_bar_def)

lemma scenario_data:
  "data scenario_bt =
     [mk_bar 0 100 90 0, mk_bar 1 100 90 30, mk_bar 2 100 90 0, mk_bar 3 100 90 0,
      mk_bar 4 100 90 0, mk_bar 5 130 90 0, mk_bar 6 130 90 0, mk_bar 7 130 90 0,
      mk_bar 8 130 90 0, mk_bar 9 130 90 0]"
  by (simp add: scenario_bt_def Backtester_def)

lemma scenario_buy:
  "buy_signal scenario_bt =
     [False, True, False, False, False, False, False, False, False, False]"
  by (simp add: scenario_bt_def Backtester_def p_example_def mk_bar_def buy_signal_def
      votes_def cond_ema_up_def cond_adx_strong_def cond_macd_cross_up_def shift1_def
      astype_int_def)

lemma scenario_sell:
  "sell_signal scenario_bt =
     [False, False, False, False, False, False, False, False, False, False]"
  by (simp add: scenario_bt_def Backtester_def p_example_def mk_bar_def sell_signal_def
      votes_def cond_ema_down_def cond_adx_strong_def cond_macd_cross_down_def shift1_def
      astype_int_def)

lemmas scenario_rows = scenario_data close_mk_bar scenario_buy scenario_sell

lemmas step_defs = bar_step_def close_logic_def open_logic_def portfolio_value_def Let_def

lemma scenario_step_open:
  "bar_step scenario_bt 100 True False (initial_state scenario_bt)
     = (\<lparr>cash = 499375, position = 5000, entry_price = 100\<rparr>, 999375)"
  by (simp add: step_defs initial_state_def scenario_bt_def Backtester_def p_example_def
      COMMISSION_def INITIAL_CASH_def)

lemma scenario_step_hold:
  "bar_step scenario_bt 100 False False \<lparr>cash = 499375, position = 5000, entry_price = 100\<rparr>
     = (\<lparr>cash = 499375, position = 5000, entry_price = 100\<rparr>, 999375)"
  by (simp add: step_defs scenario_bt_def Backtester_def p_example_def COMMISSION_def)

lemma scenario_step_exit:
  "bar_step scenario_bt 130 False False \<lparr>cash = 499375, position = 5000, entry_price = 100\<rparr>
     = (\<lparr>cash = 2297125 / 2, position = 0, entry_price = 100\<rparr>, 2297125 / 2)"
  by (simp add: step_defs scenario_bt_def Backtester_def p_example_def COMMISSION_def)

lemma scenario_step_flat:
  "bar_step scenario_bt 130 False False \<lparr>cash = 2297125 / 2, position = 0, entry_price = 100\<rparr>
     = (\<lparr>cash = 2297125 / 2, position = 0, entry_price = 100\<rparr>, 2297125 / 2)"
  by (simp add: step_defs)

lemma scenario_state_1:
  "state_after scenario_bt 1 =
     (\<lparr>cash = 499375, position = 5000, entry_price = 100\<rparr>, [999375])"
  using state_after_next [OF state_after_0]
  by (simp add: eval_nat_numeral scenario_rows scenario_step_open)

lemma scenario_state_2:
  "state_after scenario_bt 2 =
     (\<lparr>cash = 499375, position = 5000, entry_price = 100\<rparr>, [999375, 999375])"
  using state_after_next [OF scenario_state_1]
  by (simp add: eval_nat_numeral scenario_rows scenario_step_hold)

lemma scenario_state_3:
  "state_after scenario_bt 3 =
     (\<lparr>cash = 499375, position = 5000, entry_price = 100\<rparr>, [999375, 999375, 999375])"
  using state_after_next [OF scenario_state_2]
  by (simp add: eval_nat_numeral scenario_rows scenario_step_hold)

lemma scenario_state_4:
  "state_after scenario_bt 4 =
     (\<lparr>cash = 499375, position = 5000, entry_price = 100\<rparr>,
      [999375, 999375, 999375, 999375])"
  using state_after_next [OF scenario_state_3]
  by (simp add: eval_nat_numeral scenario_rows scenario_step_hold)

lemma scenario_state_5:
  "state_after scenario_bt 5 =
     (\<lparr>cash = 2297125 / 2, position = 0, entry_price = 100\<rparr>,
      [999375, 999375, 999375, 999375, 2297125 / 2])"
  using state_after_next [OF scenario_state_4]
  by (simp add: eval_nat_numeral scenario_rows scenario_step_exit)

lemma scenario_state_6:
  "state_after scenario_bt 6 =
     (\<lparr>cash = 2297125 / 2, position = 0, entry_price = 100\<rparr>,
      [999375, 999375, 999375, 999375, 2297125 / 2, 2297125 / 2])"
  using state_after_next [OF scenario_state_5]
  by (simp add: eval_nat_numeral scenario_rows scenario_step_flat)

lemma scenario_state_7:
  "state_after scenario_bt 7 =
     (\<lparr>cash = 2297125 / 2, position = 0, entry_price = 100\<rparr>,
      [999375, 999375, 999375, 999375, 2297125 / 2, 2297125 / 2, 2297125 / 2])"
  using state_after_next [OF scenario_state_6]
  by (simp add: eval_nat_numeral scenario_rows scenario_step_flat)

lemma scenario_state_8:
  "state_after scenario_bt 8 =
     (\<lparr>cash = 2297125 / 2, position = 0, entry_price = 100\<rparr>,
      [999375, 999375, 999375, 999375, 2297125 / 2, 2297125 / 2, 2297125 / 2, 2297125 / 2])"
  using state_after_next [OF scenario_state_7]
  by (simp add: eval_nat_numeral scenario_rows scenario_step_flat)

lemma scenario_state_9:
  "state_after scenario_bt 9 =
     (\<lparr>cash = 2297125 / 2, position = 0, entry_price = 100\<rparr>,
      [999375, 999375, 999375, 999375, 2297125 / 2, 2297125 / 2, 2297125 / 2, 2297125 / 2,
       2297125 / 2])"
  using state_after_next [OF scenario_state_8]
  by (simp add: eval_nat_numeral scenario_rows scenario_step_flat)

lemma scenario_values:
  "portfolio_values scenario_bt =
     [999375, 999375, 999375, 999375, 2297125 / 2, 2297125 / 2, 2297125 / 2, 2297125 / 2,
      2297125 / 2]"
proof -
  have "length (data scenario_bt) - 1 = 9"
    by (simp add: scenario_data)
  then show ?thesis
    by (simp add: portfolio_values_state_after scenario_state_9)
qed

lemma scenario_consts:
  "stop_loss (params scenario_bt) = 5 / 100" "take_profit (params scenario_bt) = 2 / 10"
  "n_shares (params scenario_bt) = 1 / 2" "commission scenario_bt = 125 / 100000"
  "initial_cash scenario_bt = 1000000"
  by (simp_all add: scenario_bt_def Backtester_def p_example_def COMMISSION_def INITIAL_CASH_def)

section \<open>The three steps of a bar (C1)\<close>

text \<open>
  Claim C1. For every bar \<open>i \<ge> 1\<close> the simulator applies three steps in a fixed order:
  the exit check (a Long closes at the close price of bar \<open>i\<close> when that price is at or
  below \<open>entry * (1 - sl)\<close> or at or above \<open>entry * (1 + tp)\<close>, adding
  \<open>size * price * (1 - commission)\<close> to cash; a Short closes when the price is at or above
  \<open>entry * (1 + sl)\<close> or at or below \<open>entry * (1 - tp)\<close>, subtracting
  \<open>|size| * price * (1 + commission)\<close>); then the entry check, only when the state is
  flat by then, at the same price, buy before sell; then the mark-to-market value is
  appended. The state of the code after bar \<open>i\<close>, seen as a state of the specification's
  machine, is the entry check applied to the exit check of the state after bar \<open>i - 1\<close>,
  and the list of values grows by the mark-to-market value of the new state. In the
  scenario (close 100, then 130 from bar 5, a Long opened at bar 1 at 100, take-profit
  0.2) the position is held through bars 1 to 4 and the exit happens at bar 5, where
  cash grows by \<open>5000 * 130 * (1 - commission)\<close>.
\<close>

theorem three_steps_per_bar:
  "(\<forall>i. 1 \<le> i \<and> i < length (data bt) \<longrightarrow>
      view (fst (state_after bt i)) =
        entry_check bt (close (data bt ! i)) (buy_signal bt ! i) (sell_signal bt ! i)
          (exit_check bt (close (data bt ! i)) (view (fst (state_after bt (i - 1)))))
      \<and> snd (state_after bt i) =
          snd (state_after bt (i - 1))
          @ [mark_to_market (close (data bt ! i)) (view (fst (state_after bt i)))])
   \<and> view (fst (state_after bt 0)) = (initial_cash bt, Flat)
   \<and> portfolio_values bt = snd (state_after bt (length (data bt) - 1))
   \<and> view (fst (state_after scenario_bt 1)) = (499375, Long 100 5000)
   \<and> view (fst (state_after scenario_bt 2)) = (499375, Long 100 5000)
   \<and> view (fst (state_after scenario_bt 3)) = (499375, Long 100 5000)
   \<and> view (fst (state_after scenario_bt 4)) = (499375, Long 100 5000)
   \<and> exit_check scenario_bt (close (data scenario_bt ! 5)) (view (fst (state_after scenario_bt 4)))
       = (499375 + 5000 * 130 * (1 - 125 / 100000), Flat)
   \<and> view (fst (state_after scenario_bt 5)) = (499375 + 5000 * 130 * (1 - 125 / 100000), Flat)
   \<and> portfolio_values scenario_bt =
       [999375, 999375, 999375, 999375, 2297125 / 2, 2297125 / 2, 2297125 / 2, 2297125 / 2,
        2297125 / 2]"
proof -
  have step: "view (fst (state_after bt i)) =
        entry_check bt (close (data bt ! i)) (buy_signal bt ! i) (sell_signal bt ! i)
          (exit_check bt (close (data bt ! i)) (view (fst (state_after bt (i - 1)))))
      \<and> snd (state_after bt i) =
          snd (state_after bt (i - 1))
          @ [mark_to_market (close (data bt ! i)) (view (fst (state_after bt i)))]"
    if pos: "1 \<le> i" for i
  proof -
    obtain k where k: "i = Suc k"
      by (cases i) (use pos in simp_all)
    show ?thesis
      unfolding k by (simp add: state_after_Suc loop_body_def Let_def value_step view_step)
  qed
  have init: "view (fst (state_after bt 0)) = (initial_cash bt, Flat)"
    by (simp add: state_after_0 initial_state_def view_def holding_of_def)
  have all_bars: "\<forall>i. 1 \<le> i \<and> i < length (data bt) \<longrightarrow>
      view (fst (state_after bt i)) =
        entry_check bt (close (data bt ! i)) (buy_signal bt ! i) (sell_signal bt ! i)
          (exit_check bt (close (data bt ! i)) (view (fst (state_after bt (i - 1)))))
      \<and> snd (state_after bt i) =
          snd (state_after bt (i - 1))
          @ [mark_to_market (close (data bt ! i)) (view (fst (state_after bt i)))]"
    using step by blast
  have pv: "portfolio_values bt = snd (state_after bt (length (data bt) - 1))"
    by (rule portfolio_values_state_after)
  have s1: "view (fst (state_after scenario_bt 1)) = (499375, Long 100 5000)"
    using scenario_state_1 by (simp add: view_def holding_of_def)
  have s2: "view (fst (state_after scenario_bt 2)) = (499375, Long 100 5000)"
    by (simp add: scenario_state_2 view_def holding_of_def)
  have s3: "view (fst (state_after scenario_bt 3)) = (499375, Long 100 5000)"
    by (simp add: scenario_state_3 view_def holding_of_def)
  have s4: "view (fst (state_after scenario_bt 4)) = (499375, Long 100 5000)"
    by (simp add: scenario_state_4 view_def holding_of_def)
  have exit5: "exit_check scenario_bt (close (data scenario_bt ! 5))
       (view (fst (state_after scenario_bt 4)))
       = (499375 + 5000 * 130 * (1 - 125 / 100000), Flat)"
    by (simp add: s4 scenario_rows scenario_consts)
  have s5: "view (fst (state_after scenario_bt 5))
       = (499375 + 5000 * 130 * (1 - 125 / 100000), Flat)"
    by (simp add: scenario_state_5 view_def holding_of_def)
  show ?thesis
    using all_bars init pv s1 s2 s3 s4 exit5 s5 scenario_values
    by (intro conjI) assumption+
qed

text \<open>The general part of C1 at bar 5 of the scenario.\<close>

theorem three_steps_per_bar_witness:
  "1 \<le> (5::nat) \<and> 5 < length (data scenario_bt)
   \<and> entry_check scenario_bt 130 False False (exit_check scenario_bt 130 (499375, Long 100 5000))
       = (2297125 / 2, Flat)
   \<and> snd (state_after scenario_bt 5) = [999375, 999375, 999375, 999375, 2297125 / 2]"
  using three_steps_per_bar [of scenario_bt, THEN conjunct1, rule_format, of 5]
  by (simp add: scenario_state_4 scenario_state_5 scenario_rows view_def holding_of_def
      scenario_consts)

section \<open>Long entries (C3)\<close>



section \<open>Round-trip commission (C9)\<close>

text \<open>
  Claim C9. A Long opened at price \<open>p\<close> with investment \<open>v\<close> (the outlay
  \<open>v * (1 + commission)\<close> debited) and closed on a later bar at the same price \<open>p\<close>
  leaves cash at the starting cash minus \<open>2 * v * commission\<close>. The close at the entry
  price is a hypothesis: it needs a stop-loss or take-profit distance that is not
  positive.
\<close>

theorem round_trip_commission:
  assumes "position st = 0" and "0 < price" and "0 < cash st * n_shares (params bt)"
    and "cash st > cash st * n_shares (params bt) * (1 + commission bt)"
    and "price \<le> price * (1 - stop_loss (params bt))
         \<or> price \<ge> price * (1 + take_profit (params bt))"
  shows "position (fst (bar_step bt price True sell st)) > 0
       \<and> cash (fst (bar_step bt price True sell st))
           = cash st - cash st * n_shares (params bt) * (1 + commission bt)
       \<and> cash (close_logic bt price (fst (bar_step bt price True sell st)))
           = cash st - 2 * (cash st * n_shares (params bt)) * commission bt
       \<and> position (close_logic bt price (fst (bar_step bt price True sell st))) = 0"
  using assms
  by (auto simp add: bar_step_def open_logic_def Let_def close_logic_def field_simps)

text \<open>C9 with a zero stop-loss distance: the Long opened at 100 closes at 100.\<close>

theorem round_trip_commission_witness:
  "position (initial_state no_stop_bt) = 0
   \<and> (100 :: real) \<le> 100 * (1 - stop_loss (params no_stop_bt))
   \<and> cash (close_logic no_stop_bt 100
              (fst (bar_step no_stop_bt 100 True False (initial_state no_stop_bt))))
       = 1000000 - 2 * 500000 * (125 / 100000)"
  using round_trip_commission [where st = "initial_state no_stop_bt" and price = 100
      and bt = no_stop_bt and sell = False]
  by (simp add: initial_state_def no_stop_bt_def Backtester_def p_example_def INITIAL_CASH_def
      COMMISSION_def)

section \<open>Causality (C7)\<close>

text \<open>
  Claim C7. The buy and sell signals at bar \<open>i\<close>, the cash, position and entry price
  after bar \<open>i\<close> and the portfolio values recorded up to bar \<open>i\<close> are the same for two
  runs whose bars agree up to index \<open>i\<close>, whatever the bars after \<open>i\<close> are and whether
  they are there at all.
\<close>

theorem causality:
  assumes "take (Suc i) (data bt) = take (Suc i) (data bt')"
    and "i < length (data bt)" and "i < length (data bt')"
    and "params bt' = params bt" and "initial_cash bt' = initial_cash bt"
    and "commission bt' = commission bt"
  shows "buy_signal bt ! i = buy_signal bt' ! i
     \<and> sell_signal bt ! i = sell_signal bt' ! i
     \<and> fst (state_after bt i) = fst (state_after bt' i)
     \<and> take i (portfolio_values bt) = take i (portfolio_values bt')"
  using signals_causal [OF assms(1-4), of i] state_causal [OF assms, of i]
    values_upto [OF assms(2)] values_upto [OF assms(3)]
  by simp

text \<open>C7 for the scenario and the scenario cut after bar 5, with another seventh bar.\<close>

theorem causality_witness:
  "take (Suc 5) (data scenario_bt) = take (Suc 5) (data scenario_cut)
   \<and> data scenario_cut \<noteq> data scenario_bt
   \<and> length (data scenario_cut) = 7
   \<and> fst (state_after scenario_cut 5) = \<lparr>cash = 2297125 / 2, position = 0, entry_price = 100\<rparr>
   \<and> take 5 (portfolio_values scenario_cut) = [999375, 999375, 999375, 999375, 2297125 / 2]"
  using causality [where i = 5 and bt = scenario_bt and bt' = scenario_cut]
  by (simp add: scenario_cut_def scenario_data scenario_state_5 scenario_values)

section \<open>The run with a price spike, bar by bar\<close>

lemma spike_data:
  "data spike_bt = [quiet_bar 0 100, mk_bar 1 100 110 40, quiet_bar 2 400, mk_bar 3 400 500 40]"
  by (simp add: spike_bt_def Backtester_def)

lemma spike_buy: "buy_signal spike_bt = [False, False, False, False]"
  by (simp add: spike_bt_def Backtester_def p_example_def mk_bar_def quiet_bar_def buy_signal_def
      votes_def cond_ema_up_def cond_adx_strong_def cond_macd_cross_up_def shift1_def
      astype_int_def)

lemma spike_sell: "sell_signal spike_bt = [False, True, False, True]"
  by (simp add: spike_bt_def Backtester_def p_example_def mk_bar_def quiet_bar_def sell_signal_def
      votes_def cond_ema_down_def cond_adx_strong_def cond_macd_cross_down_def shift1_def
      astype_int_def)

lemma close_quiet_bar: "close (quiet_bar k c) = c"
  by (simp add: quiet_bar_def mk_bar_def)

lemma spike_consts:
  "stop_loss (params spike_bt) = 5 / 100" "take_profit (params spike_bt) = 1 / 10"
  "n_shares (params spike_bt) = 1 / 2" "commission spike_bt = 125 / 100000"
  "initial_cash spike_bt = 1000000"
  by (simp_all add: spike_bt_def Backtester_def p_example_def COMMISSION_def INITIAL_CASH_def)

lemmas spike_rows = spike_data close_mk_bar close_quiet_bar spike_buy spike_sell

lemma spike_state_1:
  "state_after spike_bt 1 =
     (\<lparr>cash = 1499375, position = - 5000, entry_price = 100\<rparr>, [999375])"
  using state_after_next [OF state_after_0, of spike_bt]
  by (simp add: eval_nat_numeral spike_rows step_defs initial_state_def spike_consts)

lemma spike_state_2:
  "state_after spike_bt 2 =
     (\<lparr>cash = - 503125, position = 0, entry_price = 100\<rparr>, [999375, - 503125])"
  using state_after_next [OF spike_state_1]
  by (simp add: eval_nat_numeral spike_rows step_defs spike_consts)

lemma spike_state_3:
  "state_after spike_bt 3 =
     (\<lparr>cash = - (48279875 / 64), position = 20125 / 32, entry_price = 400\<rparr>,
      [999375, - 503125, - (32179875 / 64)])"
  using state_after_next [OF spike_state_2]
  by (simp add: eval_nat_numeral spike_rows step_defs spike_consts)

lemma p_example_in_search_space: "in_search_space p_example"
  by (simp add: in_search_space_def p_example_def is_integer_def)


section \<open>Short entries (C2)\<close>

text \<open>
  Claim C2 says that at every bar with a true sell signal, a false buy signal and a flat
  state a Short is opened without any capital check, and that the value recorded for the
  bar is the cash after the credit minus \<open>|size| * price\<close>. The last part fails when the
  cash is negative: in the run with the spike the short opened at 100 is closed at 400,
  which leaves the cash at \<open>-503125\<close>; the sell signal of bar 3 then opens a position of
  size \<open>- investment / price\<close> with a negative investment, that is a positive position,
  and the value recorded is the cash plus \<open>|size| * price\<close>.
\<close>

theorem short_value_counterexample:
  "sell_signal spike_bt ! 3 \<and> \<not> buy_signal spike_bt ! 3
   \<and> position (close_logic spike_bt (close (data spike_bt ! 3)) (fst (state_after spike_bt 2))) = 0
   \<and> snd (state_after spike_bt 3) ! 2
       \<noteq> cash (fst (state_after spike_bt 3))
           - \<bar>position (fst (state_after spike_bt 3))\<bar> * close (data spike_bt ! 3)"
  by (simp add: spike_state_2 spike_state_3 spike_rows close_logic_def)

text \<open>
  Claim C2 as amended. At a bar with a true sell signal and a false buy signal, when the
  state is flat as the entry is evaluated and the price is not zero, the position is
  opened without any capital check: \<open>investment * (1 - commission)\<close> is credited to
  cash, with \<open>investment = cash * n_shares\<close>, the size is \<open>- investment / price\<close> and the
  entry price is the price of the bar. The value recorded for the bar is the cash before
  the trade minus \<open>investment * commission\<close>; when the cash before the trade and
  \<open>n_shares\<close> are not negative and the price is positive, it is also the cash after the
  credit minus \<open>|size| * price\<close>.
\<close>

theorem short_entry_value:
  assumes "position (close_logic bt price st) = 0" and "price \<noteq> 0"
  shows "(let st1 = close_logic bt price st;
              investment = cash st1 * n_shares (params bt)
          in fst (bar_step bt price False True st) =
               \<lparr>cash = cash st1 + investment * (1 - commission bt),
                position = - (investment / price), entry_price = price\<rparr>
             \<and> snd (bar_step bt price False True st) = cash st1 - investment * commission bt
             \<and> (0 \<le> cash st1 \<and> 0 \<le> n_shares (params bt) \<and> 0 < price \<longrightarrow>
                  snd (bar_step bt price False True st) =
                    cash (fst (bar_step bt price False True st))
                    - \<bar>position (fst (bar_step bt price False True st))\<bar> * price))"
  using assms
  apply (simp add: bar_step_def open_logic_def Let_def portfolio_value_def)
  apply (auto simp: field_simps abs_if zero_less_divide_iff divide_less_0_iff mult_less_0_iff zero_less_mult_iff)
  done

text \<open>The amended C2 at the first sell signal of the run with the spike.\<close>

theorem short_entry_value_witness:
  "position (close_logic spike_bt 100 (initial_state spike_bt)) = 0 \<and> (100 :: real) \<noteq> 0
   \<and> fst (bar_step spike_bt 100 False True (initial_state spike_bt))
       = \<lparr>cash = 1499375, position = - 5000, entry_price = 100\<rparr>
   \<and> snd (bar_step spike_bt 100 False True (initial_state spike_bt)) = 1000000 - 500000 * (125 / 100000)
   \<and> snd (bar_step spike_bt 100 False True (initial_state spike_bt)) = 1499375 - \<bar>- 5000\<bar> * 100"
  using short_entry_value [where bt = spike_bt and price = 100 and st = "initial_state spike_bt"]
  by (simp add: close_logic_def initial_state_def Let_def spike_consts)

section \<open>Solvency (C10)\<close>




section \<open>The signals of the first bar (C8)\<close>

text \<open>The loop starts at bar 1: the EMA and ADX columns of row 0 do not reach it.\<close>

lemma run_ignores_first_row:
  assumes "data bt \<noteq> []" and "j < length (data bt)"
  shows "state_after (bt\<lparr>data := (data bt ! 0)\<lparr>ema := e, adx := a\<rparr> # tl (data bt)\<rparr>) j
     = state_after bt j"
  using assms(2)
proof (induction j)
  case 0
  then show ?case
    by (simp add: state_after_0 initial_state_def)
next
  case (Suc j)
  let ?bt = "bt\<lparr>data := (data bt ! 0)\<lparr>ema := e, adx := a\<rparr> # tl (data bt)\<rparr>"
  have ih: "state_after ?bt j = state_after bt j"
    using Suc by simp
  have len: "length (data ?bt) = length (data bt)"
    using assms(1) by simp
  have row: "data ?bt ! Suc k = data bt ! Suc k" if "Suc k < length (data bt)" for k
    using that by (simp add: nth_tl)
  have macd: "macd_line (data ?bt ! k) = macd_line (data bt ! k)
      \<and> macd_sig (data ?bt ! k) = macd_sig (data bt ! k)" if "k < length (data bt)" for k
    using that row by (cases k) simp_all
  have sig: "buy_signal ?bt ! Suc j = buy_signal bt ! Suc j
      \<and> sell_signal ?bt ! Suc j = sell_signal bt ! Suc j"
    using Suc.prems len row [of j] macd [of j]
    by (simp add: buy_signal_nth sell_signal_nth del: nth_Cons_Suc)
  have step: "bar_step ?bt = bar_step bt"
    by (rule bar_step_cong) simp_all
  show ?case
    using ih sig row [OF Suc.prems] step
    by (simp add: state_after_Suc loop_body_def del: nth_Cons_Suc)
qed

text \<open>
  Claim C8 says that the first element of both signal series is false. The shifted MACD
  columns hold NaN in row 0, so no cross is counted there, but the two other votes are
  enough: a first bar that closes above its EMA with an ADX above the threshold has a
  true buy signal.
\<close>

theorem first_bar_signal_counterexample:
  "buy_signal one_bar_bt ! 0"
  by (simp add: one_bar_bt_def Backtester_def p_example_def mk_bar_def buy_signal_def
      votes_def cond_ema_up_def cond_adx_strong_def cond_macd_cross_up_def shift1_def
      astype_int_def)

text \<open>
  Claim C8 as amended. For a sequence with at least one bar, both momentum-cross
  conditions are false at bar 0; the buy signal at bar 0 is true exactly when the close is
  above the EMA and the ADX above the threshold, the sell signal exactly when the close is
  below the EMA and the ADX above the threshold, and never both; the simulation starts at
  bar 1 and its portfolio values do not depend on the EMA and ADX of bar 0, the only
  columns of bar 0 that these two signals read.
\<close>

theorem signals_at_first_bar:
  assumes "data bt \<noteq> []"
  shows "\<not> cond_macd_cross_up bt ! 0 \<and> \<not> cond_macd_cross_down bt ! 0
     \<and> buy_signal bt ! 0
         = (close (data bt ! 0) > ema (data bt ! 0)
            \<and> adx (data bt ! 0) > adx_threshold (params bt))
     \<and> sell_signal bt ! 0
         = (close (data bt ! 0) < ema (data bt ! 0)
            \<and> adx (data bt ! 0) > adx_threshold (params bt))
     \<and> \<not> (buy_signal bt ! 0 \<and> sell_signal bt ! 0)
     \<and> portfolio_values (bt\<lparr>data := (data bt ! 0)\<lparr>ema := e, adx := a\<rparr> # tl (data bt)\<rparr>)
         = portfolio_values bt"
proof -
  have len: "0 < length (data bt)"
    using assms by simp
  have "state_after (bt\<lparr>data := (data bt ! 0)\<lparr>ema := e, adx := a\<rparr> # tl (data bt)\<rparr>)
      (length (data bt) - 1) = state_after bt (length (data bt) - 1)"
    using assms by (intro run_ignores_first_row) simp_all
  then have "portfolio_values (bt\<lparr>data := (data bt ! 0)\<lparr>ema := e, adx := a\<rparr> # tl (data bt)\<rparr>)
      = portfolio_values bt"
    using assms by (simp add: portfolio_values_state_after)
  then show ?thesis
    using len by (simp add: buy_signal_nth sell_signal_nth cross_up_nth cross_down_nth
        astype_int_def)
qed

text \<open>The amended C8 for the scenario, with the EMA and ADX of bar 0 replaced.\<close>

theorem signals_at_first_bar_witness:
  "data scenario_bt \<noteq> [] \<and> \<not> buy_signal scenario_bt ! 0 \<and> \<not> sell_signal scenario_bt ! 0
   \<and> portfolio_values
        (scenario_bt\<lparr>data := (data scenario_bt ! 0)\<lparr>ema := 110, adx := 40\<rparr>
            # tl (data scenario_bt)\<rparr>)
       = [999375, 999375, 999375, 999375, 2297125 / 2, 2297125 / 2, 2297125 / 2, 2297125 / 2,
          2297125 / 2]"
  using signals_at_first_bar [where bt = scenario_bt and e = 110 and a = 40]
  by (simp add: scenario_values scenario_buy scenario_sell) (simp add: scenario_data)

section \<open>Runs without signals and constant series\<close>

lemma flat_quiet_step:
  "position st = 0 \<Longrightarrow> bar_step bt price False False st = (st, cash st)"
  by (simp add: bar_step_def close_logic_def open_logic_def portfolio_value_def)

lemma quiet_tail:
  assumes "state_after bt k = (st, pvs)" and "position st = 0"
    and "\<forall>i. k < i \<and> i \<le> k + m \<longrightarrow> \<not> buy_signal bt ! i \<and> \<not> sell_signal bt ! i"
  shows "state_after bt (k + m) = (st, pvs @ replicate m (cash st))"
  using assms(3)
proof (induction m)
  case 0
  then show ?case using assms(1) by simp
next
  case (Suc m)
  then have ih: "state_after bt (k + m) = (st, pvs @ replicate m (cash st))"
    by simp
  have "\<not> buy_signal bt ! Suc (k + m) \<and> \<not> sell_signal bt ! Suc (k + m)"
    using Suc.prems by simp
  then show ?case
    using state_after_next [OF ih] assms(2)
    by (simp add: flat_quiet_step replicate_append_same)
qed









lemma walk_forward_Some:
  assumes "\<forall>i \<in> set idxs. ind p (take cs (drop (i * cs) d)) \<noteq> None"
  shows "walk_forward ind d p cs idxs acc =
     Inr (acc @ map (\<lambda>i. block_metric p (the (ind p (take cs (drop (i * cs) d))))) idxs)"
  using assms by (induction idxs arbitrary: acc) (auto simp: Let_def)

lemma objective_total:
  assumes "macd_fast p < macd_slow p" and "30 \<le> length d div 10"
    and "\<forall>i < 10. ind p (take (length d div 10) (drop (i * (length d div 10)) d)) \<noteq> None"
  shows "objective ind d p =
     Inr (fdiv (fsum (map (\<lambda>i. block_metric p
              (the (ind p (take (length d div 10) (drop (i * (length d div 10)) d))))) [0..<10]))
            (Fin 10))"
  using assms by (simp add: objective_def Let_def walk_forward_Some)

lemma fadd_NaN_right: "fadd a NaN = NaN"
  by (cases a) simp_all

lemma foldl_fadd_NaN: "foldl fadd NaN xs = NaN"
  by (induction xs) simp_all

lemma fsum_NaN_aux: "NaN \<in> set xs \<Longrightarrow> foldl fadd a xs = NaN"
  by (induction xs arbitrary: a) (auto simp: fadd_NaN_right foldl_fadd_NaN)

lemma fsum_NaN: "NaN \<in> set xs \<Longrightarrow> fsum xs = NaN"
  by (simp add: fsum_def fsum_NaN_aux)


section \<open>The block with the spike\<close>

lemma take_drop_map_upt:
  "m + n \<le> N \<Longrightarrow> take n (drop m (map f [0..<N])) = map f [m..<m + n]"
  by (simp add: take_map drop_map)

lemma upt_49_60: "[49..<60] = [49, 50, 51, 52, 53, 54, 55, 56, 57, 58, 59 :: nat]"
  by (simp add: upt_conv_Cons)

lemma spike_first_block:
  "the (drop_warmup p_example (take (length spike_data div 10) (drop (0 * (length spike_data div 10)) spike_data)))
     = spike_block"
proof -
  have "take 60 spike_data = map (\<lambda>k. if k = 50 then mk_bar 50 100 110 40
               else quiet_bar (int k) (if k < 50 then 100 else 400)) [0..<0 + 60]"
    unfolding spike_data_def using take_drop_map_upt [of 0 60 600] by simp
  then have "drop 49 (take 60 spike_data) = map (\<lambda>k. if k = 50 then mk_bar 50 100 110 40
               else quiet_bar (int k) (if k < 50 then 100 else 400)) [49..<60]"
    by (simp add: drop_map)
  then have "drop 49 (take 60 spike_data) = spike_block"
    by (simp add: upt_49_60 spike_block_def)
  moreover have "length spike_data = 600"
    by (simp add: spike_data_def)
  ultimately show ?thesis
    by (simp add: drop_warmup_def p_example_def)
qed

lemma sb_data: "data spike_block_bt = spike_block"
  by (simp add: spike_block_bt_def Backtester_def)

lemma sb_buy:
  "buy_signal spike_block_bt =
     [False, False, False, False, False, False, False, False, False, False, False]"
  by (simp add: spike_block_bt_def spike_block_def Backtester_def p_example_def mk_bar_def
      quiet_bar_def buy_signal_def votes_def cond_ema_up_def cond_adx_strong_def
      cond_macd_cross_up_def shift1_def astype_int_def)

lemma sb_sell:
  "sell_signal spike_block_bt =
     [False, True, False, False, False, False, False, False, False, False, False]"
  by (simp add: spike_block_bt_def spike_block_def Backtester_def p_example_def mk_bar_def
      quiet_bar_def sell_signal_def votes_def cond_ema_down_def cond_adx_strong_def
      cond_macd_cross_down_def shift1_def astype_int_def)

lemma sb_consts:
  "stop_loss (params spike_block_bt) = 5 / 100" "take_profit (params spike_block_bt) = 1 / 10"
  "n_shares (params spike_block_bt) = 1 / 2" "commission spike_block_bt = 125 / 100000"
  "initial_cash spike_block_bt = 1000000"
  by (simp_all add: spike_block_bt_def Backtester_def p_example_def COMMISSION_def
      INITIAL_CASH_def)

lemma sb_state_1:
  "state_after spike_block_bt 1 =
     (\<lparr>cash = 1499375, position = - 5000, entry_price = 100\<rparr>, [999375])"
  using state_after_next [OF state_after_0, of spike_block_bt]
  by (simp add: eval_nat_numeral sb_data spike_block_def close_mk_bar close_quiet_bar sb_buy
      sb_sell step_defs initial_state_def sb_consts)

lemma sb_state_2:
  "state_after spike_block_bt 2 =
     (\<lparr>cash = - 503125, position = 0, entry_price = 100\<rparr>, [999375, - 503125])"
  using state_after_next [OF sb_state_1]
  by (simp add: eval_nat_numeral sb_data spike_block_def close_mk_bar close_quiet_bar sb_buy
      sb_sell step_defs sb_consts)

lemma sb_values:
  "portfolio_values spike_block_bt =
     [999375, - 503125, - 503125, - 503125, - 503125, - 503125, - 503125, - 503125, - 503125,
      - 503125]"
proof -
  have quiet: "\<forall>i. 2 < i \<and> i \<le> 2 + 8 \<longrightarrow>
      \<not> buy_signal spike_block_bt ! i \<and> \<not> sell_signal spike_block_bt ! i"
  proof (intro allI impI)
    fix i :: nat
    assume "2 < i \<and> i \<le> 2 + 8"
    then have "i = 3 \<or> i = 4 \<or> i = 5 \<or> i = 6 \<or> i = 7 \<or> i = 8 \<or> i = 9 \<or> i = 10"
      by arith
    then show "\<not> buy_signal spike_block_bt ! i \<and> \<not> sell_signal spike_block_bt ! i"
      by (auto simp: sb_buy sb_sell)
  qed
  have "state_after spike_block_bt (2 + 8) =
      (\<lparr>cash = - 503125, position = 0, entry_price = 100\<rparr>,
       [999375, - 503125] @ replicate 8 (- 503125))"
    using quiet_tail [OF sb_state_2 _ quiet] by simp
  moreover have "length (data spike_block_bt) - 1 = 2 + 8"
    by (simp add: sb_data spike_block_def)
  ultimately show ?thesis
    by (simp add: portfolio_values_state_after eval_nat_numeral)
qed

lemma sb_series:
  "run_series spike_block_bt =
     [(3600 * 50, 999375), (3600 * 51, - 503125), (3600 * 52, - 503125), (3600 * 53, - 503125),
      (3600 * 54, - 503125), (3600 * 55, - 503125), (3600 * 56, - 503125),
      (3600 * 57, - 503125), (3600 * 58, - 503125), (3600 * 59, - 503125)]"
  by (simp add: run_series_def sb_values sb_data spike_block_def mk_bar_def quiet_bar_def)

lemma sb_metric: "calculate_objective_metric (run_series spike_block_bt) = NaN"
  unfolding sb_series
  by (simp add: calculate_objective_metric_def Let_def cummax_def fmin_skipna_def fsub_def
      is_integer_def)

lemma sb_block_metric: "block_metric p_example spike_block = NaN"
  using sb_metric by (simp add: block_metric_def Let_def spike_block_bt_def sb_series [unfolded spike_block_bt_def])

lemma length_spike_data: "length spike_data = 600"
  by (simp add: spike_data_def)


lemma p_example_macd: "macd_fast p_example < macd_slow p_example"
  by (simp add: p_example_def)



section \<open>The short-circuits of the objective (C5)\<close>




section \<open>The objective is not always a number (C6)\<close>

text \<open>
  Claim C6. The objective returns a finite real for every dataset and every parameter set
  of the search space, never NaN. The docstring of the metric promises 0.0 where the
  calculation is not possible. The code does not keep this: in the first block of
  \<open>spike_data\<close> a short is opened at 100 and stopped out at 400, the portfolio value goes
  from 999375 to -503125, and the metric raises the negative ratio of the two to the power
  \<open>8760 / 9\<close>, which is NaN on numpy floats. The mean over the blocks is NaN as well.
\<close>

theorem objective_nan:
  "in_search_space p_example \<and> objective drop_warmup spike_data p_example = Inr NaN"
proof -
  let ?g = "\<lambda>i. block_metric p_example
       (the (drop_warmup p_example
          (take (length spike_data div 10) (drop (i * (length spike_data div 10)) spike_data))))"
  have total: "objective drop_warmup spike_data p_example
      = Inr (fdiv (fsum (map ?g [0..<10])) (Fin 10))"
    by (rule objective_total) (simp_all add: p_example_macd length_spike_data drop_warmup_def)
  have "?g 0 = NaN"
    by (simp only: spike_first_block sb_block_metric)
  then have "NaN \<in> set (map ?g [0..<10])"
    by (metis (no_types, lifting) image_eqI set_map set_upt atLeastLessThan_iff le0 zero_less_numeral)
  then have "fsum (map ?g [0..<10]) = NaN"
    by (rule fsum_NaN)
  then show ?thesis
    using total p_example_in_search_space by simp
qed

section \<open>The metric on series of positive values\<close>

text \<open>
  Where every value of the series is positive, no division by zero and no negative base
  occurs, and the code computes the metric of the specification.
\<close>

lemma length_cummax_from: "length (cummax_from m xs) = length xs"
  by (induction xs arbitrary: m) simp_all

lemma length_cummax: "length (cummax xs) = length xs"
  by (cases xs) (simp_all add: cummax_def length_cummax_from)

lemma cummax_from_nth:
  "i < length xs \<Longrightarrow> cummax_from m xs ! i = Max (insert m (set (take (Suc i) xs)))"
proof (induction xs arbitrary: m i)
  case Nil
  then show ?case by simp
next
  case (Cons x xs)
  show ?case
  proof (cases i)
    case 0
    then show ?thesis by (simp add: max.commute)
  next
    case (Suc k)
    then have "k < length xs" using Cons.prems by simp
    from Cons.IH [OF this, of "max m x"]
    have "cummax_from (max m x) xs ! k = Max (insert (max m x) (set (take (Suc k) xs)))" .
    also have "\<dots> = Max (insert m (insert x (set (take (Suc k) xs))))"
      by (cases "set (take (Suc k) xs) = {}") (simp_all add: max.assoc)
    finally show ?thesis using Suc by simp
  qed
qed

lemma cummax_nth: "i < length xs \<Longrightarrow> cummax xs ! i = running_peak xs i"
proof (cases xs)
  case Nil
  then show "i < length xs \<Longrightarrow> ?thesis" by simp
next
  case (Cons x ys)
  show "i < length xs \<Longrightarrow> ?thesis"
  proof (cases i)
    case 0
    then show ?thesis using Cons by (simp add: cummax_def running_peak_def)
  next
    case (Suc k)
    assume "i < length xs"
    then have "k < length ys" using Cons Suc by simp
    then show ?thesis
      using Cons Suc by (simp add: cummax_def running_peak_def cummax_from_nth)
  qed
qed

lemma running_peak_pos:
  assumes "\<forall>v \<in> set vs. 0 < v" and "i < length vs"
  shows "0 < running_peak vs i"
proof -
  have "vs ! 0 \<in> set (take (Suc i) vs)"
    using assms(2) by (cases vs) simp_all
  moreover have "0 < vs ! 0"
    using assms by (cases vs) simp_all
  ultimately have "vs ! 0 \<le> running_peak vs i"
    by (simp add: running_peak_def)
  then show ?thesis
    using \<open>0 < vs ! 0\<close> by simp
qed

lemma drawdown_list:
  assumes "\<forall>v \<in> set vs. 0 < v"
  shows "map2 (\<lambda>v m. fdiv (Fin (v - m)) (Fin m)) vs (cummax vs)
     = map Fin (map (spec_drawdown vs) [0..<length vs])"
proof (rule nth_equalityI)
  show "length (map2 (\<lambda>v m. fdiv (Fin (v - m)) (Fin m)) vs (cummax vs))
      = length (map Fin (map (spec_drawdown vs) [0..<length vs]))"
    by (simp add: length_cummax)
next
  fix i
  assume "i < length (map2 (\<lambda>v m. fdiv (Fin (v - m)) (Fin m)) vs (cummax vs))"
  then have i: "i < length vs"
    by (simp add: length_cummax)
  then have "running_peak vs i \<noteq> 0"
    using running_peak_pos [OF assms] by fastforce
  then show "map2 (\<lambda>v m. fdiv (Fin (v - m)) (Fin m)) vs (cummax vs) ! i
      = map Fin (map (spec_drawdown vs) [0..<length vs]) ! i"
    using i by (simp add: length_cummax cummax_nth spec_drawdown_def)
qed

lemma foldl_fmin_Fin:
  "foldl (\<lambda>m x. if fless x m then x else m) (Fin y) (map Fin ys) = Fin (Min (insert y (set ys)))"
proof (induction ys arbitrary: y)
  case Nil
  then show ?case by simp
next
  case (Cons z zs)
  have "Min (insert (if z < y then z else y) (set zs)) = Min (insert y (insert z (set zs)))"
    by (cases "set zs = {}") (auto simp: min_def)
  then show ?case
    using Cons [of "if z < y then z else y"] by (simp add: if_distrib [of Fin] cong: if_cong)
qed

lemma fmin_skipna_Fin: "xs \<noteq> [] \<Longrightarrow> fmin_skipna (map Fin xs) = Fin (Min (set xs))"
proof (cases xs)
  case Nil
  then show "xs \<noteq> [] \<Longrightarrow> ?thesis" by simp
next
  case (Cons y ys)
  have "filter (\<lambda>x. x \<noteq> NaN) (map Fin xs) = map Fin xs"
    by (induction xs) simp_all
  then show "xs \<noteq> [] \<Longrightarrow> ?thesis"
    using Cons by (simp add: fmin_skipna_def foldl_fmin_Fin)
qed

lemma metric_on_positive_series:
  assumes "\<forall>x \<in> set series. 0 < snd x"
  shows "calculate_objective_metric series = Fin (spec_metric series)"
proof (cases "length series < 2")
  case True
  then show ?thesis
    by (simp add: calculate_objective_metric_def spec_metric_def)
next
  case False
  then have ne: "series \<noteq> []" by auto
  have pos: "\<forall>v \<in> set (map snd series). 0 < v"
    using assms by simp
  have "0 < snd (hd series)" "0 < snd (last series)"
    using assms ne by simp_all
  then have ratio: "snd (hd series) \<noteq> 0" "0 \<le> 1 + (snd (last series) / snd (hd series) - 1)"
    by simp_all
  have dd: "fabs (fmin_skipna (map2 (\<lambda>v m. fdiv (Fin (v - m)) (Fin m)) (map snd series)
        (cummax (map snd series)))) = Fin (spec_max_drawdown (map snd series))"
  proof -
    have "map (spec_drawdown (map snd series)) [0..<length (map snd series)] \<noteq> []"
      using ne by simp
    then have "fmin_skipna (map Fin (map (spec_drawdown (map snd series))
          [0..<length (map snd series)]))
        = Fin (Min (set (map (spec_drawdown (map snd series)) [0..<length (map snd series)])))"
      by (rule fmin_skipna_Fin)
    then show ?thesis
      unfolding drawdown_list [OF pos] spec_max_drawdown_def by simp
  qed
  have mdd0: "spec_max_drawdown (map snd series) \<noteq> 0"
    if "\<not> spec_max_drawdown (map snd series) < 1 / 100"
    using that by simp
  show ?thesis
    unfolding calculate_objective_metric_def spec_metric_def Let_def dd
    using False ne ratio mdd0 by (simp add: fsub_def)
qed

section \<open>The metric of a constant series (C4)\<close>


end
